theory Spec2Isabelle
  imports Main "HOL-Library.AList"
begin

section \<open>The single sign-on command: data model\<close>

text \<open>
  The \<open>sso\<close> command (pkg/commands/sso/root.go) reconciles the token set returned by the
  authorization callback with the profiles of the in-memory configuration.

  \<open>config.Profiles\<close> is a Go map from profile name to a pointer to a profile record. It is
  modelled as an association list: the order of the list stands for the order in which a
  \<open>range\<close> loop visits the map. Assignment \<open>p[name] = v\<close> is \<open>AList.update\<close>. The
  functions that mutate the map or its records and return it are modelled as functions
  returning the new mapping. Integers are only copied, never computed with, so they are
  plain \<open>int\<close>. An \<open>error\<close> value records how the source built it: a sentinel, an error
  handed over by a collaborator, \<open>errors.New\<close>, \<open>fmt.Errorf\<close> with its format, string
  arguments and wrapped error, or one of the two wrapper structs of package \<open>errors\<close>.
\<close>

record Profile =
  AccessToken :: string
  AccessTokenCreated :: int
  AccessTokenTTL :: int
  Default :: bool
  Email :: string
  RefreshToken :: string
  RefreshTokenCreated :: int
  RefreshTokenTTL :: int
  Token :: string

type_synonym Profiles = "(string \<times> Profile) list"

datatype remediation = AuthRemediation | RemediationText string

datatype error =
    ErrDontContinue
  | ErrInvalidVerboseJSONCombo
  | ErrNoServiceID
  | ExternalError string
  | ErrorsNew string
  | Errorf string "string list" "error option"
  | RemediationError error remediation
  | SkipExitError bool error

record JWT =
  Jwt_AccessToken :: string
  Jwt_RefreshToken :: string
  Jwt_ExpiresIn :: int
  Jwt_RefreshExpiresIn :: int

record AuthorizationResult =
  Jwt :: JWT
  ar_Email :: string
  SessionToken :: string
  Err :: "error option"

record Globals =
  SkipAuthPrompt :: bool
  Flags_AutoYes :: bool
  Flags_NonInteractive :: bool
  Flags_Profile :: string
  Manifest_File_Profile :: string
  Config_Profiles :: Profiles

record RootCommand =
  Globals :: Globals
  profile :: string
  InvokedFromProfileCreate :: bool
  ProfileCreateName :: string
  ProfileDefault :: bool
  InvokedFromProfileUpdate :: bool
  ProfileUpdateName :: string

datatype ProfileFlow = ProfileNone | ProfileCreate | ProfileUpdate

section \<open>The profile package\<close>

text \<open>
  The helpers of package \<open>profile\<close> are called by root.go but their file is not among
  the sources. Each is modelled below from the words of the specification and from what
  the call sites in root.go expect of it.
\<close>

text \<open>Modelled from the spec: the constant \<open>profile.DefaultName\<close> is missing; the
  specification names the fallback profile by the literal "default".\<close>

definition DefaultName :: string where
  "DefaultName = ''default''"

text \<open>Modelled from the spec: \<open>profile.Default\<close> is missing; it yields the name of the
  "existing default profile", the profile whose \<open>Default\<close> flag is set, and the empty
  string when there is none (root.go tests the name against the empty string).\<close>

fun profile_Default :: "Profiles \<Rightarrow> string" where
  "profile_Default [] = []"
| "profile_Default ((k, v) # ps) = (if Default v then k else profile_Default ps)"

text \<open>Modelled from the spec: \<open>profile.Get\<close> is missing; it yields the record of the named
  profile, or nil (here \<open>None\<close>) when no profile has that name.\<close>

definition profile_Get :: "string \<Rightarrow> Profiles \<Rightarrow> Profile option" where
  "profile_Get name p = map_of p name"

text \<open>Modelled from the spec: \<open>profile.SetDefault\<close> is missing; it makes the named profile
  the default and "clears the default flag on every other profile" (root.go calls it "for
  its side effect of resetting all other profiles to have their Default field set to
  false"); the boolean tells whether the named profile exists.\<close>

definition profile_SetDefault :: "string \<Rightarrow> Profiles \<Rightarrow> Profiles \<times> bool" where
  "profile_SetDefault name p =
     (map (\<lambda>(k, v). (k, v\<lparr>Default := (k = name)\<rparr>)) p, name \<in> set (map fst p))"

text \<open>Modelled from the spec: \<open>profile.SetADefault\<close> is missing; root.go calls it when
  profiles exist and none is the default, and expects the name of a profile that has been
  made the default together with the updated mapping. The model marks the first profile the
  iteration meets.\<close>

fun profile_SetADefault :: "Profiles \<Rightarrow> string \<times> Profiles" where
  "profile_SetADefault [] = ([], [])"
| "profile_SetADefault ((k, v) # ps) = (k, (k, v\<lparr>Default := True\<rparr>) # ps)"

text \<open>Modelled from the spec: \<open>profile.Edit\<close> is missing; it applies the given edit to the
  record of the named profile, in place; the boolean tells whether the named profile
  exists (root.go reports a failed update when it is false).\<close>

definition profile_Edit ::
  "string \<Rightarrow> Profiles \<Rightarrow> (Profile \<Rightarrow> Profile) \<Rightarrow> Profiles \<times> bool" where
  "profile_Edit name p f =
     (map (\<lambda>(k, v). if k = name then (k, f v) else (k, v)) p, name \<in> set (map fst p))"

section \<open>The single sign-on command: operations\<close>

text \<open>
  Methods of \<open>RootCommand\<close> read and assign \<open>c.Globals.Config.Profiles\<close>; the model
  passes the command in and returns it updated. \<open>now\<close> is the reading of
  \<open>time.Now().Unix()\<close>.
\<close>

definition set_Profiles :: "RootCommand \<Rightarrow> Profiles \<Rightarrow> RootCommand" where
  "set_Profiles c ps = c\<lparr>Globals := (Globals c)\<lparr>Config_Profiles := ps\<rparr>\<rparr>"

definition Profiles_of :: "RootCommand \<Rightarrow> Profiles" where
  "Profiles_of c = Config_Profiles (Globals c)"

definition identifyProfileAndFlow :: "RootCommand \<Rightarrow> (string \<times> ProfileFlow) \<times> RootCommand" where
  "identifyProfileAndFlow c =
     (let profileOverride =
            (if Flags_Profile (Globals c) \<noteq> [] then Flags_Profile (Globals c)
             else if Manifest_File_Profile (Globals c) \<noteq> [] then Manifest_File_Profile (Globals c)
             else []);
          currentDefaultProfile = profile_Default (Profiles_of c);
          (newDefaultProfile, c') =
            (if currentDefaultProfile = [] \<and> length (Profiles_of c) > 0
             then (let (n, ps) = profile_SetADefault (Profiles_of c) in (n, set_Profiles c ps))
             else ([], c))
      in ((if profileOverride \<noteq> [] then (profileOverride, ProfileUpdate)
           else if profile c \<noteq> [] then (profile c, ProfileUpdate)
           else if InvokedFromProfileCreate c \<and> ProfileCreateName c \<noteq> []
             then (ProfileCreateName c, ProfileCreate)
           else if InvokedFromProfileUpdate c \<and> ProfileUpdateName c \<noteq> []
             then (ProfileUpdateName c, ProfileUpdate)
           else if currentDefaultProfile \<noteq> [] then (currentDefaultProfile, ProfileUpdate)
           else if newDefaultProfile \<noteq> [] then (newDefaultProfile, ProfileUpdate)
           else (DefaultName, ProfileCreate)), c'))"

definition createNewProfile ::
  "string \<Rightarrow> bool \<Rightarrow> Profiles \<Rightarrow> AuthorizationResult \<Rightarrow> int \<Rightarrow> Profiles" where
  "createNewProfile profileName makeDefault p ar now =
     AList.update profileName
       \<lparr>AccessToken = Jwt_AccessToken (Jwt ar),
        AccessTokenCreated = now,
        AccessTokenTTL = Jwt_ExpiresIn (Jwt ar),
        Default = makeDefault,
        Email = ar_Email ar,
        RefreshToken = Jwt_RefreshToken (Jwt ar),
        RefreshTokenCreated = now,
        RefreshTokenTTL = Jwt_RefreshExpiresIn (Jwt ar),
        Token = SessionToken ar\<rparr> p"

definition editProfile ::
  "string \<Rightarrow> bool \<Rightarrow> Profiles \<Rightarrow> AuthorizationResult \<Rightarrow> int \<Rightarrow> Profiles \<times> error option" where
  "editProfile profileName makeDefault p ar now =
     (let (ps, ok) = profile_Edit profileName p
            (\<lambda>p. p\<lparr>Default := makeDefault,
                   AccessToken := Jwt_AccessToken (Jwt ar),
                   AccessTokenCreated := now,
                   AccessTokenTTL := Jwt_ExpiresIn (Jwt ar),
                   Email := ar_Email ar,
                   RefreshToken := Jwt_RefreshToken (Jwt ar),
                   RefreshTokenCreated := now,
                   RefreshTokenTTL := Jwt_RefreshExpiresIn (Jwt ar),
                   Token := SessionToken ar\<rparr>)
      in if \<not> ok
         then (ps, Some (RemediationError
                 (Errorf ''failed to update '%s' profile with new token data'' [profileName] None)
                 (RemediationText ''Run `fastly sso` to retry.'')))
         else (ps, None))"

text \<open>
  \<open>processCreateProfile\<close> assigns the mapping returned by \<open>SetDefault\<close> only when
  \<open>SetDefault\<close> found the profile, as the source does. If \<open>SetDefault\<close> resets the shared
  records before it knows whether the name exists, the resets are visible in Go even
  without the assignment. The properties below do not depend on that case: they concern
  runs without the make-default flag, or the token fields and the write of the file, which
  \<open>SetDefault\<close> leaves alone.
\<close>

definition processCreateProfile ::
  "RootCommand \<Rightarrow> AuthorizationResult \<Rightarrow> string \<Rightarrow> int \<Rightarrow> RootCommand" where
  "processCreateProfile c ar profileName now =
     (let isDefault = (if InvokedFromProfileCreate c then ProfileDefault c else True);
          c1 = set_Profiles c (createNewProfile profileName isDefault (Profiles_of c) ar now)
      in if ProfileDefault c
         then (let (p, ok) = profile_SetDefault (ProfileCreateName c) (Profiles_of c1)
               in if ok then set_Profiles c1 p else c1)
         else c1)"

definition processUpdateProfile ::
  "RootCommand \<Rightarrow> AuthorizationResult \<Rightarrow> string \<Rightarrow> int \<Rightarrow> error option \<times> RootCommand" where
  "processUpdateProfile c ar profileName now =
     (let isDefault0 = (case profile_Get profileName (Profiles_of c) of
                          Some p \<Rightarrow> Default p | None \<Rightarrow> False);
          isDefault = (if InvokedFromProfileUpdate c then ProfileDefault c else isDefault0);
          (ps, err) = editProfile profileName isDefault (Profiles_of c) ar now
      in case err of
           Some e \<Rightarrow> (Some e, c)
         | None \<Rightarrow> (None, set_Profiles c ps))"

text \<open>
  What the command does to the world is recorded as a list of events; the collaborators
  (clock, configuration file, prompt, authorization server, browser opener) are the
  fields of \<open>Env\<close>. \<open>Config_Write\<close> is the outcome of \<open>Config.Write\<close> on the
  configuration it is handed. \<open>serverErr\<close> is the value of the variable of that name that
  \<open>Exec\<close> reads right after starting the server goroutine.
\<close>

datatype sso_event =
    EvPrompt string
  | EvInfo
  | EvDescription string
  | EvOpener string
  | EvErrLogAdd error
  | EvConfigWrite Profiles
  | EvSessionToken bool string

record Env =
  time_Now_Unix :: int
  Config_Write :: "Profiles \<Rightarrow> error option"
  AskYesNo :: "bool \<times> error option"
  serverErr :: "error option"
  AuthServer_AuthURL :: "string \<times> error option"
  Opener :: "string \<Rightarrow> error option"
  AuthServer_GetResult :: AuthorizationResult

definition processProfiles ::
  "Env \<Rightarrow> RootCommand \<Rightarrow> AuthorizationResult \<Rightarrow> error option \<times> RootCommand \<times> sso_event list" where
  "processProfiles env c ar =
     (let ((profileName, flow), c1) = identifyProfileAndFlow c;
          (err, c2) =
            (case flow of
               ProfileCreate \<Rightarrow> (None, processCreateProfile c1 ar profileName (time_Now_Unix env))
             | ProfileUpdate \<Rightarrow> processUpdateProfile c1 ar profileName (time_Now_Unix env)
             | ProfileNone \<Rightarrow> (None, c1))
      in case err of
           Some e \<Rightarrow> (Some (Errorf ''failed to update profile: %w'' [] (Some e)), c2, [])
         | None \<Rightarrow>
             (case Config_Write env (Profiles_of c2) of
                Some e \<Rightarrow> (Some (Errorf ''failed to update config file: %w'' [] (Some e)), c2,
                            [EvConfigWrite (Profiles_of c2)])
              | None \<Rightarrow> (None, c2, [EvConfigWrite (Profiles_of c2)])))"

definition Exec :: "Env \<Rightarrow> RootCommand \<Rightarrow> error option \<times> RootCommand \<times> sso_event list" where
  "Exec env c =
     (let prompting = (\<not> SkipAuthPrompt (Globals c) \<and> \<not> Flags_AutoYes (Globals c)
                        \<and> \<not> Flags_NonInteractive (Globals c));
          ((profileName, flow), c1) =
            (if prompting then identifyProfileAndFlow c else (([], ProfileNone), c));
          ev1 = (if prompting then [EvPrompt profileName] else [])
      in if prompting \<and> snd (AskYesNo env) \<noteq> None then (snd (AskYesNo env), c1, ev1)
         else if prompting \<and> \<not> fst (AskYesNo env)
           then (Some (SkipExitError True ErrDontContinue), c1, ev1)
         else (case serverErr env of
                 Some e \<Rightarrow> (Some e, c1, ev1)
               | None \<Rightarrow>
                   (case AuthServer_AuthURL env of
                      (authorizationURL, Some e) \<Rightarrow>
                        (Some (RemediationError
                           (Errorf ''failed to generate an authorization URL: %w'' [] (Some e))
                           AuthRemediation), c1, ev1 @ [EvInfo])
                    | (authorizationURL, None) \<Rightarrow>
                        (case Opener env authorizationURL of
                           Some e \<Rightarrow>
                             (Some (Errorf ''failed to open your default browser: %w'' [] (Some e)), c1,
                              ev1 @ [EvInfo, EvDescription authorizationURL, EvOpener authorizationURL])
                         | None \<Rightarrow>
                             (let ev2 = ev1 @ [EvInfo, EvDescription authorizationURL,
                                               EvOpener authorizationURL];
                                  ar = AuthServer_GetResult env
                              in if Err ar \<noteq> None \<or> SessionToken ar = []
                                 then (Some (RemediationError
                                         (Errorf ''failed to authorize: %w'' []
                                            (Some (case Err ar of
                                                     None \<Rightarrow> ErrorsNew ''no session token''
                                                   | Some e \<Rightarrow> e)))
                                         AuthRemediation), c1, ev2)
                                 else (case processProfiles env c1 ar of
                                         (Some err, c2, ev3) \<Rightarrow>
                                           (Some (Errorf ''failed to process profile data: %w'' []
                                                    (Some err)), c2,
                                            ev2 @ ev3 @ [EvErrLogAdd err])
                                       | (None, c2, ev3) \<Rightarrow>
                                           (None, c2,
                                            ev2 @ ev3 @ [EvSessionToken
                                              (InvokedFromProfileCreate c
                                                 \<or> InvokedFromProfileUpdate c)
                                              (SessionToken ar)])))))))"

section \<open>The API commands\<close>

text \<open>
  The list and describe commands check their flags, resolve the service, call one method
  of the API client and print. Their collaborators are the fields of \<open>api_env\<close>:
  \<open>Verbose\<close> is the result of \<open>c.Globals.Verbose()\<close>, \<open>JSONOutput_Enabled\<close> the field set by
  \<open>--json\<close>, \<open>ServiceDetails\<close> and \<open>ServiceID\<close> the values returned by the functions of
  that name in package \<open>argparser\<close>, \<open>APIClient\<close> the error (if any) of the API method called
  with the given input, and \<open>WriteJSON\<close> the pair returned by \<open>c.WriteJSON\<close>. The object the
  API returns is only printed, so it is left out. What a run does is recorded as a list of
  events; the text printed is abstracted to the kind of output.
\<close>

text \<open>Modelled from the spec: the type \<open>manifest.Source\<close> is missing; a service ID comes
  "from the flag, manifest, or environment", or its source is undefined.\<close>

datatype Source = SourceUndefined | SourceFile | SourceEnv | SourceFlag

datatype api_input =
    ListInput string int
  | GetConditionInput string int string
  | GetServiceInput string
  | GetTLSActivationInput string "string option"
  | UpdateResourceInput string int string string

datatype api_event =
    CallServiceDetails
  | CallServiceID
  | DisplayServiceID
  | ErrLogAdd error
  | ErrLogAddWithContext error
  | CallAPI string api_input
  | CallWriteJSON
  | PrintTable
  | PrintText

record api_env =
  Verbose :: bool
  JSONOutput_Enabled :: bool
  ServiceDetails :: "string \<times> int \<times> error option"
  ServiceID :: "string \<times> Source \<times> string \<times> error option"
  serviceName_WasSet :: bool
  APIClient :: "string \<Rightarrow> api_input \<Rightarrow> error option"
  WriteJSON :: "bool \<times> error option"

definition s3_ListCommand_Exec :: "api_env \<Rightarrow> error option \<times> api_event list" where
  "s3_ListCommand_Exec env =
     (if Verbose env \<and> JSONOutput_Enabled env then (Some ErrInvalidVerboseJSONCombo, [])
      else case ServiceDetails env of
        (serviceID, serviceVersion, Some err) \<Rightarrow>
          (Some err, [CallServiceDetails, ErrLogAddWithContext err])
      | (serviceID, serviceVersion, None) \<Rightarrow>
          (let ev = [CallServiceDetails, CallAPI ''ListS3s'' (ListInput serviceID serviceVersion)]
           in case APIClient env ''ListS3s'' (ListInput serviceID serviceVersion) of
                Some err \<Rightarrow> (Some err, ev @ [ErrLogAdd err])
              | None \<Rightarrow>
                  (case WriteJSON env of
                     (True, err) \<Rightarrow> (err, ev @ [CallWriteJSON])
                   | (False, err) \<Rightarrow>
                       if \<not> Verbose env then (None, ev @ [CallWriteJSON, PrintTable])
                       else (None, ev @ [CallWriteJSON, PrintText]))))"

definition gcs_ListCommand_Exec :: "api_env \<Rightarrow> error option \<times> api_event list" where
  "gcs_ListCommand_Exec env =
     (if Verbose env \<and> JSONOutput_Enabled env then (Some ErrInvalidVerboseJSONCombo, [])
      else case ServiceDetails env of
        (serviceID, serviceVersion, Some err) \<Rightarrow>
          (Some err, [CallServiceDetails, ErrLogAddWithContext err])
      | (serviceID, serviceVersion, None) \<Rightarrow>
          (let ev = [CallServiceDetails, CallAPI ''ListGCSs'' (ListInput serviceID serviceVersion)]
           in case APIClient env ''ListGCSs'' (ListInput serviceID serviceVersion) of
                Some err \<Rightarrow> (Some err, ev @ [ErrLogAdd err])
              | None \<Rightarrow>
                  (case WriteJSON env of
                     (True, err) \<Rightarrow> (err, ev @ [CallWriteJSON])
                   | (False, err) \<Rightarrow>
                       if \<not> Verbose env then (None, ev @ [CallWriteJSON, PrintTable])
                       else (None, ev @ [CallWriteJSON, PrintText]))))"

definition azureblob_ListCommand_Exec :: "api_env \<Rightarrow> error option \<times> api_event list" where
  "azureblob_ListCommand_Exec env =
     (if Verbose env \<and> JSONOutput_Enabled env then (Some ErrInvalidVerboseJSONCombo, [])
      else case ServiceDetails env of
        (serviceID, serviceVersion, Some err) \<Rightarrow>
          (Some err, [CallServiceDetails, ErrLogAddWithContext err])
      | (serviceID, serviceVersion, None) \<Rightarrow>
          (let ev = [CallServiceDetails,
                     CallAPI ''ListBlobStorages'' (ListInput serviceID serviceVersion)]
           in case APIClient env ''ListBlobStorages'' (ListInput serviceID serviceVersion) of
                Some err \<Rightarrow> (Some err, ev @ [ErrLogAddWithContext err])
              | None \<Rightarrow>
                  (case WriteJSON env of
                     (True, err) \<Rightarrow> (err, ev @ [CallWriteJSON])
                   | (False, err) \<Rightarrow>
                       if \<not> Verbose env then (None, ev @ [CallWriteJSON, PrintTable])
                       else (None, ev @ [CallWriteJSON, PrintText]))))"

definition condition_ListCommand_Exec :: "api_env \<Rightarrow> error option \<times> api_event list" where
  "condition_ListCommand_Exec env =
     (if Verbose env \<and> JSONOutput_Enabled env then (Some ErrInvalidVerboseJSONCombo, [])
      else case ServiceDetails env of
        (serviceID, serviceVersion, Some err) \<Rightarrow>
          (Some err, [CallServiceDetails, ErrLogAddWithContext err])
      | (serviceID, serviceVersion, None) \<Rightarrow>
          (let ev = [CallServiceDetails,
                     CallAPI ''ListConditions'' (ListInput serviceID serviceVersion)]
           in case APIClient env ''ListConditions'' (ListInput serviceID serviceVersion) of
                Some err \<Rightarrow> (Some err, ev @ [ErrLogAddWithContext err])
              | None \<Rightarrow>
                  (case WriteJSON env of
                     (True, err) \<Rightarrow> (err, ev @ [CallWriteJSON])
                   | (False, err) \<Rightarrow>
                       if \<not> Verbose env then (None, ev @ [CallWriteJSON, PrintTable])
                       else (None, ev @ [CallWriteJSON, PrintText]))))"

definition condition_DescribeCommand_Exec ::
  "api_env \<Rightarrow> string \<Rightarrow> error option \<times> api_event list" where
  "condition_DescribeCommand_Exec env name =
     (if Verbose env \<and> JSONOutput_Enabled env then (Some ErrInvalidVerboseJSONCombo, [])
      else case ServiceDetails env of
        (serviceID, serviceVersion, Some err) \<Rightarrow>
          (Some err, [CallServiceDetails, ErrLogAddWithContext err])
      | (serviceID, serviceVersion, None) \<Rightarrow>
          (let ev = [CallServiceDetails,
                     CallAPI ''GetCondition'' (GetConditionInput serviceID serviceVersion name)]
           in case APIClient env ''GetCondition''
                     (GetConditionInput serviceID serviceVersion name) of
                Some err \<Rightarrow> (Some err, ev @ [ErrLogAddWithContext err])
              | None \<Rightarrow>
                  (case WriteJSON env of
                     (True, err) \<Rightarrow> (err, ev @ [CallWriteJSON])
                   | (False, err) \<Rightarrow> (None, ev @ [CallWriteJSON, PrintText]))))"

definition service_DescribeCommand_Exec :: "api_env \<Rightarrow> error option \<times> api_event list" where
  "service_DescribeCommand_Exec env =
     (if Verbose env \<and> JSONOutput_Enabled env then (Some ErrInvalidVerboseJSONCombo, [])
      else case ServiceID env of
        (serviceID, source, flag, Some err) \<Rightarrow> (Some err, [CallServiceID])
      | (serviceID, source, flag, None) \<Rightarrow>
          (let ev1 = [CallServiceID] @ (if Verbose env then [DisplayServiceID] else [])
           in if source = SourceUndefined \<and> \<not> serviceName_WasSet env
              then (Some ErrNoServiceID, ev1 @ [ErrLogAdd ErrNoServiceID])
              else (let ev2 = ev1 @ [CallAPI ''GetServiceDetails'' (GetServiceInput serviceID)]
                    in case APIClient env ''GetServiceDetails'' (GetServiceInput serviceID) of
                         Some err \<Rightarrow> (Some err, ev2 @ [ErrLogAddWithContext err])
                       | None \<Rightarrow>
                           (case WriteJSON env of
                              (True, err) \<Rightarrow> (err, ev2 @ [CallWriteJSON])
                            | (False, err) \<Rightarrow> (None, ev2 @ [CallWriteJSON, PrintText])))))"

definition constructInput :: "string \<Rightarrow> string \<Rightarrow> api_input" where
  "constructInput id' include =
     GetTLSActivationInput id' (if include \<noteq> [] then Some include else None)"

definition activation_DescribeCommand_Exec ::
  "api_env \<Rightarrow> string \<Rightarrow> string \<Rightarrow> error option \<times> api_event list" where
  "activation_DescribeCommand_Exec env id' include =
     (if Verbose env \<and> JSONOutput_Enabled env then (Some ErrInvalidVerboseJSONCombo, [])
      else (let input = constructInput id' include;
                ev = [CallAPI ''GetTLSActivation'' input]
            in case APIClient env ''GetTLSActivation'' input of
                 Some err \<Rightarrow> (Some err, ev @ [ErrLogAddWithContext err])
               | None \<Rightarrow>
                   (case WriteJSON env of
                      (True, err) \<Rightarrow> (err, ev @ [CallWriteJSON])
                    | (False, err) \<Rightarrow> (None, ev @ [CallWriteJSON, PrintText]))))"

text \<open>The resource link update command takes the link's ID and new name from its flags.\<close>

definition resourcelink_UpdateCommand_Exec ::
  "api_env \<Rightarrow> string \<Rightarrow> string \<Rightarrow> error option \<times> api_event list" where
  "resourcelink_UpdateCommand_Exec env id' name =
     (if Verbose env \<and> JSONOutput_Enabled env then (Some ErrInvalidVerboseJSONCombo, [])
      else case ServiceDetails env of
        (serviceID, serviceVersion, Some err) \<Rightarrow>
          (Some err, [CallServiceDetails, ErrLogAddWithContext err])
      | (serviceID, serviceVersion, None) \<Rightarrow>
          (let input = UpdateResourceInput serviceID serviceVersion id' name;
               ev = [CallServiceDetails, CallAPI ''UpdateResource'' input]
           in case APIClient env ''UpdateResource'' input of
                Some err \<Rightarrow> (Some err, ev @ [ErrLogAddWithContext err])
              | None \<Rightarrow>
                  (case WriteJSON env of
                     (True, err) \<Rightarrow> (err, ev @ [CallWriteJSON])
                   | (False, err) \<Rightarrow> (None, ev @ [CallWriteJSON, PrintText]))))"

section \<open>Vocabulary of the properties\<close>

text \<open>
  Names are chosen by taking the first non-empty candidate of a list. The precedence of the
  specification is written down from its words (flag, manifest, positional argument,
  existing default profile, the literal "default"); \<open>code_profile_name\<close> lists every
  candidate that \<open>identifyProfileAndFlow\<close> consults.
\<close>

fun first_nonempty :: "string list \<Rightarrow> string" where
  "first_nonempty [] = []"
| "first_nonempty (x # xs) = (if x \<noteq> [] then x else first_nonempty xs)"

definition spec_profile_name :: "string \<Rightarrow> string \<Rightarrow> string \<Rightarrow> Profiles \<Rightarrow> string" where
  "spec_profile_name flag manifest arg ps =
     first_nonempty [flag, manifest, arg, profile_Default ps, ''default'']"

definition code_profile_name :: "RootCommand \<Rightarrow> string" where
  "code_profile_name c =
     first_nonempty
       [Flags_Profile (Globals c), Manifest_File_Profile (Globals c), profile c,
        if InvokedFromProfileCreate c then ProfileCreateName c else [],
        if InvokedFromProfileUpdate c then ProfileUpdateName c else [],
        profile_Default (Profiles_of c),
        fst (profile_SetADefault (Profiles_of c)),
        DefaultName]"

definition default_count :: "Profiles \<Rightarrow> nat" where
  "default_count ps = length (filter (\<lambda>(k, v). Default v) ps)"

text \<open>
  \<open>explicit_name\<close> is the name given by flag, manifest or positional argument (empty when
  none is). \<open>selected_name\<close> and \<open>selected_flow\<close> are the two results of
  \<open>identifyProfileAndFlow\<close>. \<open>token_fields\<close> projects a profile to its eight token fields,
  \<open>result_fields\<close> is what the authorization result and the clock provide for them, and
  \<open>tokens_at\<close> reads them at a name of the mapping, \<open>Default_at\<close> the default flag. \<open>forget_Default\<close> blanks the default
  flags, so that two mappings can be compared up to those. \<open>config_writes\<close> lists what was
  handed to \<open>Config.Write\<close>. \<open>reaches_callback\<close> says that \<open>Exec\<close> gets as far as the
  callback result: the prompt, if shown, is answered yes, and starting the server, building
  the URL and opening the browser all succeed.
\<close>

definition explicit_name :: "RootCommand \<Rightarrow> string" where
  "explicit_name c =
     first_nonempty [Flags_Profile (Globals c), Manifest_File_Profile (Globals c), profile c]"

definition token_fields ::
  "Profile \<Rightarrow> string \<times> int \<times> int \<times> string \<times> int \<times> int \<times> string \<times> string" where
  "token_fields p =
     (AccessToken p, AccessTokenCreated p, AccessTokenTTL p,
      RefreshToken p, RefreshTokenCreated p, RefreshTokenTTL p, Email p, Token p)"

definition result_fields ::
  "AuthorizationResult \<Rightarrow> int \<Rightarrow> string \<times> int \<times> int \<times> string \<times> int \<times> int \<times> string \<times> string" where
  "result_fields ar now =
     (Jwt_AccessToken (Jwt ar), now, Jwt_ExpiresIn (Jwt ar),
      Jwt_RefreshToken (Jwt ar), now, Jwt_RefreshExpiresIn (Jwt ar), ar_Email ar, SessionToken ar)"

definition tokens_at :: "Profiles \<Rightarrow> string \<Rightarrow> (string \<times> int \<times> int \<times> string \<times> int \<times> int \<times> string \<times> string) option" where
  "tokens_at ps n = map_option token_fields (map_of ps n)"

definition names :: "Profiles \<Rightarrow> string list" where
  "names ps = map fst ps"

definition selected_name :: "RootCommand \<Rightarrow> string" where
  "selected_name c = fst (fst (identifyProfileAndFlow c))"

definition selected_flow :: "RootCommand \<Rightarrow> ProfileFlow" where
  "selected_flow c = snd (fst (identifyProfileAndFlow c))"

definition wrap_write :: "error \<Rightarrow> error" where
  "wrap_write e = Errorf ''failed to update config file: %w'' [] (Some e)"

definition prompting :: "RootCommand \<Rightarrow> bool" where
  "prompting c \<longleftrightarrow> \<not> SkipAuthPrompt (Globals c) \<and> \<not> Flags_AutoYes (Globals c)
                    \<and> \<not> Flags_NonInteractive (Globals c)"

definition reaches_callback :: "Env \<Rightarrow> RootCommand \<Rightarrow> bool" where
  "reaches_callback env c \<longleftrightarrow>
     (if prompting c then AskYesNo env = (True, None) else True) \<and> serverErr env = None
     \<and> snd (AuthServer_AuthURL env) = None
     \<and> Opener env (fst (AuthServer_AuthURL env)) = None"

definition authorization_failed :: "AuthorizationResult \<Rightarrow> bool" where
  "authorization_failed ar \<longleftrightarrow> Err ar \<noteq> None \<or> SessionToken ar = []"

definition Default_at :: "Profiles \<Rightarrow> string \<Rightarrow> bool option" where
  "Default_at ps n = map_option Default (map_of ps n)"

definition forget_Default :: "Profiles \<Rightarrow> Profiles" where
  "forget_Default ps = map (\<lambda>(k, v). (k, v\<lparr>Default := False\<rparr>)) ps"

definition config_writes :: "sso_event list \<Rightarrow> Profiles list" where
  "config_writes ev = concat (map (\<lambda>e. case e of EvConfigWrite P \<Rightarrow> [P] | _ \<Rightarrow> []) ev)"

text \<open>Concrete inputs: a stored profile, the command as \<open>NewRootCommand\<close> leaves it over a
  given mapping, an authorization result with a session token, and collaborators that
  all succeed.\<close>

definition stored_profile :: "bool \<Rightarrow> Profile" where
  "stored_profile d =
     \<lparr>AccessToken = ''old-access'', AccessTokenCreated = 1, AccessTokenTTL = 2, Default = d,
      Email = ''old@example.com'', RefreshToken = ''old-refresh'', RefreshTokenCreated = 3,
      RefreshTokenTTL = 4, Token = ''old-session''\<rparr>"

definition sso_cmd :: "Profiles \<Rightarrow> RootCommand" where
  "sso_cmd ps =
     \<lparr>Globals = \<lparr>SkipAuthPrompt = False, Flags_AutoYes = False, Flags_NonInteractive = False,
                 Flags_Profile = [], Manifest_File_Profile = [], Config_Profiles = ps\<rparr>,
      profile = [], InvokedFromProfileCreate = False, ProfileCreateName = [],
      ProfileDefault = False, InvokedFromProfileUpdate = False, ProfileUpdateName = []\<rparr>"

definition fresh_ar :: AuthorizationResult where
  "fresh_ar =
     \<lparr>Jwt = \<lparr>Jwt_AccessToken = ''new-access'', Jwt_RefreshToken = ''new-refresh'',
             Jwt_ExpiresIn = 10, Jwt_RefreshExpiresIn = 20\<rparr>,
      ar_Email = ''new@example.com'', SessionToken = ''new-session'', Err = None\<rparr>"

definition calm_env :: "AuthorizationResult \<Rightarrow> Env" where
  "calm_env ar =
     \<lparr>time_Now_Unix = 100, Config_Write = (\<lambda>_. None), AskYesNo = (True, None),
      serverErr = None, AuthServer_AuthURL = (''https://auth'', None), Opener = (\<lambda>_. None),
      AuthServer_GetResult = ar\<rparr>"

text \<open>\<open>api_calls\<close> lists the API client methods a run has called. \<open>quiet_api\<close> is a run
  environment in which nothing is verbose, no service ID is known and every collaborator
  succeeds.\<close>

definition api_calls :: "api_event list \<Rightarrow> string list" where
  "api_calls ev = concat (map (\<lambda>e. case e of CallAPI m i \<Rightarrow> [m] | _ \<Rightarrow> []) ev)"

definition quiet_api :: api_env where
  "quiet_api =
     \<lparr>Verbose = False, JSONOutput_Enabled = False, ServiceDetails = (''123'', 4, None),
      ServiceID = ([], SourceUndefined, [], None), serviceName_WasSet = False,
      APIClient = (\<lambda>m i. None), WriteJSON = (False, None)\<rparr>"

section \<open>Properties of the single sign-on command\<close>

lemmas fixture_defs = stored_profile_def sso_cmd_def fresh_ar_def calm_env_def

lemmas sso_defs = processProfiles_def identifyProfileAndFlow_def processCreateProfile_def
  processUpdateProfile_def createNewProfile_def editProfile_def profile_Edit_def
  profile_SetDefault_def profile_Get_def set_Profiles_def Profiles_of_def DefaultName_def

subsection \<open>Auxiliary facts\<close>

lemma map_of_entries:
  "map_of (map (\<lambda>(k, v). (k, g k v)) ps) n = map_option (g n) (map_of ps n)"
  by (induction ps) auto

lemma names_entries: "names (map (\<lambda>(k, v). (k, g k v)) ps) = names ps"
  by (induction ps) (auto simp: names_def)

lemma Edit_as_entries:
  "fst (profile_Edit m ps f) = map (\<lambda>(k, v). (k, if k = m then f v else v)) ps"
  by (induction ps) (auto simp: profile_Edit_def)

lemma Edit_ok: "snd (profile_Edit m ps f) \<longleftrightarrow> m \<in> set (names ps)"
  by (simp add: profile_Edit_def names_def)

lemma SetDefault_as_entries:
  "fst (profile_SetDefault m ps) = map (\<lambda>(k, v). (k, v\<lparr>Default := (k = m)\<rparr>)) ps"
  by (simp add: profile_SetDefault_def)

lemma names_SetADefault: "names (snd (profile_SetADefault ps)) = names ps"
  by (cases ps) (auto simp: names_def)

lemma tokens_SetADefault: "tokens_at (snd (profile_SetADefault ps)) n = tokens_at ps n"
  by (cases ps) (auto simp: tokens_at_def token_fields_def)

lemma tokens_SetDefault: "tokens_at (fst (profile_SetDefault m ps)) n = tokens_at ps n"
  unfolding SetDefault_as_entries tokens_at_def map_of_entries
  by (cases "map_of ps n") (auto simp: token_fields_def)

lemma tokens_Edit_other: "n \<noteq> m \<Longrightarrow> tokens_at (fst (profile_Edit m ps f)) n = tokens_at ps n"
  unfolding Edit_as_entries tokens_at_def map_of_entries
  by (cases "map_of ps n") auto

lemma map_of_Edit: "map_of (fst (profile_Edit m ps f)) m = map_option f (map_of ps m)"
  unfolding Edit_as_entries map_of_entries by (cases "map_of ps m") auto

lemma names_Edit: "names (fst (profile_Edit m ps f)) = names ps"
  unfolding Edit_as_entries by (rule names_entries)

lemma in_names_iff: "m \<in> set (names ps) \<longleftrightarrow> map_of ps m \<noteq> None"
  by (simp add: names_def map_of_eq_None_iff)

lemma identify_Profiles:
  "Profiles_of (snd (identifyProfileAndFlow c)) =
     (if profile_Default (Profiles_of c) = [] \<and> Profiles_of c \<noteq> []
      then snd (profile_SetADefault (Profiles_of c)) else Profiles_of c)"
  by (auto simp: identifyProfileAndFlow_def Let_def set_Profiles_def Profiles_of_def split: prod.splits)

lemma identify_names: "names (Profiles_of (snd (identifyProfileAndFlow c))) = names (Profiles_of c)"
  by (simp add: identify_Profiles names_SetADefault)

lemma identify_tokens: "tokens_at (Profiles_of (snd (identifyProfileAndFlow c))) n = tokens_at (Profiles_of c) n"
  by (simp add: identify_Profiles tokens_SetADefault)

lemma identify_frame:
  "snd (identifyProfileAndFlow c) = set_Profiles c (Profiles_of (snd (identifyProfileAndFlow c)))"
  by (auto simp: identifyProfileAndFlow_def Let_def set_Profiles_def Profiles_of_def split: prod.splits)

lemma identify_explicit:
  "explicit_name c \<noteq> [] \<Longrightarrow> fst (identifyProfileAndFlow c) = (explicit_name c, ProfileUpdate)"
  by (auto simp: identifyProfileAndFlow_def explicit_name_def Let_def split: prod.splits)

lemma identify_split:
  "identifyProfileAndFlow c = ((selected_name c, selected_flow c), snd (identifyProfileAndFlow c))"
  by (simp add: selected_name_def selected_flow_def)

lemma selected_flow_cases: "selected_flow c = ProfileCreate \<or> selected_flow c = ProfileUpdate"
  by (auto simp: selected_flow_def identifyProfileAndFlow_def Let_def split: prod.splits)

lemma tokens_create_other:
  "n \<noteq> m \<Longrightarrow> tokens_at (createNewProfile m d ps ar now) n = tokens_at ps n"
  by (simp add: createNewProfile_def tokens_at_def update_conv')

lemma tokens_create_same:
  "tokens_at (createNewProfile m d ps ar now) m = Some (result_fields ar now)"
  by (simp add: createNewProfile_def tokens_at_def update_conv' token_fields_def result_fields_def)

lemma tokens_processCreate_same:
  "tokens_at (Profiles_of (processCreateProfile c ar m now)) m = Some (result_fields ar now)"
proof -
  have 1: "Profiles_of (set_Profiles c ps) = ps" for c ps
    by (simp add: set_Profiles_def Profiles_of_def)
  show ?thesis
    by (cases "profile_SetDefault (ProfileCreateName c)
                 (createNewProfile m (if InvokedFromProfileCreate c then ProfileDefault c else True)
                    (Profiles_of c) ar now)")
       (use tokens_SetDefault [of "ProfileCreateName c"
              "createNewProfile m (if InvokedFromProfileCreate c then ProfileDefault c else True)
                    (Profiles_of c) ar now" m]
        in \<open>auto simp: processCreateProfile_def Let_def 1 tokens_create_same\<close>)
qed

lemma tokens_processCreate_other:
  assumes "n \<noteq> m"
  shows "tokens_at (Profiles_of (processCreateProfile c ar m now)) n = tokens_at (Profiles_of c) n"
proof -
  have 1: "Profiles_of (set_Profiles c ps) = ps" for c ps
    by (simp add: set_Profiles_def Profiles_of_def)
  show ?thesis
    by (cases "profile_SetDefault (ProfileCreateName c)
                 (createNewProfile m (if InvokedFromProfileCreate c then ProfileDefault c else True)
                    (Profiles_of c) ar now)")
       (use assms tokens_SetDefault [of "ProfileCreateName c"
              "createNewProfile m (if InvokedFromProfileCreate c then ProfileDefault c else True)
                    (Profiles_of c) ar now" n]
        in \<open>auto simp: processCreateProfile_def Let_def 1 tokens_create_other\<close>)
qed

lemma Profiles_of_set_Profiles: "Profiles_of (set_Profiles c ps) = ps"
  by (simp add: set_Profiles_def Profiles_of_def)

lemma processUpdate_missing:
  assumes "m \<notin> set (names (Profiles_of c))"
  shows "processUpdateProfile c ar m now =
           (Some (RemediationError
                    (Errorf ''failed to update '%s' profile with new token data'' [m] None)
                    (RemediationText ''Run `fastly sso` to retry.'')), c)"
  using assms by (simp add: processUpdateProfile_def editProfile_def profile_Edit_def names_def Let_def)

lemma processUpdate_found:
  assumes "map_of (Profiles_of c) m = Some p"
  shows "fst (processUpdateProfile c ar m now) = None"
    and "map_of (Profiles_of (snd (processUpdateProfile c ar m now))) m =
           Some (p\<lparr>Default := (if InvokedFromProfileUpdate c then ProfileDefault c else Default p),
                   AccessToken := Jwt_AccessToken (Jwt ar),
                   AccessTokenCreated := now,
                   AccessTokenTTL := Jwt_ExpiresIn (Jwt ar),
                   Email := ar_Email ar,
                   RefreshToken := Jwt_RefreshToken (Jwt ar),
                   RefreshTokenCreated := now,
                   RefreshTokenTTL := Jwt_RefreshExpiresIn (Jwt ar),
                   Token := SessionToken ar\<rparr>)"
    and "names (Profiles_of (snd (processUpdateProfile c ar m now))) = names (Profiles_of c)"
    and "n \<noteq> m \<Longrightarrow> tokens_at (Profiles_of (snd (processUpdateProfile c ar m now))) n
                     = tokens_at (Profiles_of c) n"
proof -
  have ok: "m \<in> set (names (Profiles_of c))"
    using assms by (simp add: in_names_iff)
  let ?f = "\<lambda>q. q\<lparr>Default := (if InvokedFromProfileUpdate c then ProfileDefault c else Default p),
                   AccessToken := Jwt_AccessToken (Jwt ar),
                   AccessTokenCreated := now,
                   AccessTokenTTL := Jwt_ExpiresIn (Jwt ar),
                   Email := ar_Email ar,
                   RefreshToken := Jwt_RefreshToken (Jwt ar),
                   RefreshTokenCreated := now,
                   RefreshTokenTTL := Jwt_RefreshExpiresIn (Jwt ar),
                   Token := SessionToken ar\<rparr>"
  have eq: "processUpdateProfile c ar m now =
              (None, set_Profiles c (fst (profile_Edit m (Profiles_of c) ?f)))"
    using assms ok
    by (simp add: processUpdateProfile_def editProfile_def profile_Get_def Let_def Edit_ok
             split: prod.splits)
       (simp add: profile_Edit_def names_def)
  show "fst (processUpdateProfile c ar m now) = None" by (simp add: eq)
  show "map_of (Profiles_of (snd (processUpdateProfile c ar m now))) m = Some (?f p)"
    by (simp add: eq Profiles_of_set_Profiles map_of_Edit assms)
  show "names (Profiles_of (snd (processUpdateProfile c ar m now))) = names (Profiles_of c)"
    by (simp add: eq Profiles_of_set_Profiles names_Edit)
  show "n \<noteq> m \<Longrightarrow> tokens_at (Profiles_of (snd (processUpdateProfile c ar m now))) n
                     = tokens_at (Profiles_of c) n"
    by (simp add: eq Profiles_of_set_Profiles tokens_Edit_other)
qed

lemma processUpdate_found_tokens:
  assumes "m \<in> set (names (Profiles_of c))"
  shows "tokens_at (Profiles_of (snd (processUpdateProfile c ar m now))) m = Some (result_fields ar now)"
proof -
  from assms obtain p where p: "map_of (Profiles_of c) m = Some p"
    by (auto simp: in_names_iff)
  show ?thesis
    by (simp add: tokens_at_def processUpdate_found(2) [OF p] token_fields_def result_fields_def)
qed

lemma processProfiles_unfold:
  "processProfiles env c ar =
     (let c1 = snd (identifyProfileAndFlow c);
          (err, c2) =
            (case selected_flow c of
               ProfileCreate \<Rightarrow> (None, processCreateProfile c1 ar (selected_name c) (time_Now_Unix env))
             | ProfileUpdate \<Rightarrow> processUpdateProfile c1 ar (selected_name c) (time_Now_Unix env)
             | ProfileNone \<Rightarrow> (None, c1))
      in case err of
           Some e \<Rightarrow> (Some (Errorf ''failed to update profile: %w'' [] (Some e)), c2, [])
         | None \<Rightarrow>
             (case Config_Write env (Profiles_of c2) of
                Some e \<Rightarrow> (Some (Errorf ''failed to update config file: %w'' [] (Some e)), c2,
                            [EvConfigWrite (Profiles_of c2)])
              | None \<Rightarrow> (None, c2, [EvConfigWrite (Profiles_of c2)])))"
proof -
  obtain a b c1 where i: "identifyProfileAndFlow c = ((a, b), c1)"
    by (cases "identifyProfileAndFlow c") auto
  show ?thesis
    by (cases b) (simp_all add: processProfiles_def selected_name_def selected_flow_def i)
qed

lemma processProfiles_reconciled:
  assumes "selected_flow c = ProfileCreate \<or> selected_name c \<in> set (names (Profiles_of c))"
  shows "snd (snd (processProfiles env c ar)) =
           [EvConfigWrite (Profiles_of (fst (snd (processProfiles env c ar))))]"
    and "fst (processProfiles env c ar) =
           map_option wrap_write
             (Config_Write env (Profiles_of (fst (snd (processProfiles env c ar)))))"
    and "tokens_at (Profiles_of (fst (snd (processProfiles env c ar)))) (selected_name c)
           = Some (result_fields ar (time_Now_Unix env))"
    and "n \<noteq> selected_name c \<Longrightarrow>
           tokens_at (Profiles_of (fst (snd (processProfiles env c ar)))) n
             = tokens_at (Profiles_of c) n"
    and "selected_flow c = ProfileUpdate \<Longrightarrow>
           names (Profiles_of (fst (snd (processProfiles env c ar)))) = names (Profiles_of c)"
proof -
  let ?c1 = "snd (identifyProfileAndFlow c)"
  let ?now = "time_Now_Unix env"
  let ?m = "selected_name c"
  consider (create) "selected_flow c = ProfileCreate"
    | (update) "selected_flow c = ProfileUpdate" "?m \<in> set (names (Profiles_of c))"
    using assms selected_flow_cases [of c] by auto
  then have main:
    "\<exists>c2. processProfiles env c ar =
            (map_option wrap_write (Config_Write env (Profiles_of c2)), c2,
             [EvConfigWrite (Profiles_of c2)])
          \<and> tokens_at (Profiles_of c2) ?m = Some (result_fields ar ?now)
          \<and> (\<forall>n. n \<noteq> ?m \<longrightarrow> tokens_at (Profiles_of c2) n = tokens_at (Profiles_of c) n)
          \<and> (selected_flow c = ProfileUpdate \<longrightarrow> names (Profiles_of c2) = names (Profiles_of c))"
  proof cases
    case create
    let ?c2 = "processCreateProfile ?c1 ar ?m ?now"
    have "processProfiles env c ar =
            (map_option wrap_write (Config_Write env (Profiles_of ?c2)), ?c2,
             [EvConfigWrite (Profiles_of ?c2)])"
      by (cases "Config_Write env (Profiles_of ?c2)")
         (simp_all add: processProfiles_unfold create wrap_write_def Let_def)
    then show ?thesis
      using create
      by (intro exI [of _ ?c2])
         (simp add: tokens_processCreate_same tokens_processCreate_other identify_tokens)
  next
    case update
    then have "?m \<in> set (names (Profiles_of ?c1))"
      by (simp add: identify_names)
    then obtain p where p: "map_of (Profiles_of ?c1) ?m = Some p"
      by (auto simp: in_names_iff)
    let ?r = "processUpdateProfile ?c1 ar ?m ?now"
    let ?c2 = "snd ?r"
    have r: "?r = (None, ?c2)"
      using processUpdate_found(1) [OF p, of ar ?now] by (cases ?r) simp
    have "processProfiles env c ar =
            (map_option wrap_write (Config_Write env (Profiles_of ?c2)), ?c2,
             [EvConfigWrite (Profiles_of ?c2)])"
      unfolding processProfiles_unfold Let_def update(1) ProfileFlow.case
      by (subst r, cases "Config_Write env (Profiles_of ?c2)")
         (simp_all add: wrap_write_def)
    then show ?thesis
      using update
      by (intro exI [of _ ?c2])
         (simp add: processUpdate_found(3,4) [OF p] identify_tokens identify_names
            \<open>?m \<in> set (names (Profiles_of ?c1))\<close> processUpdate_found_tokens)
  qed
  then obtain c2 where c2:
    "processProfiles env c ar =
            (map_option wrap_write (Config_Write env (Profiles_of c2)), c2,
             [EvConfigWrite (Profiles_of c2)])"
    "tokens_at (Profiles_of c2) ?m = Some (result_fields ar ?now)"
    "\<forall>n. n \<noteq> ?m \<longrightarrow> tokens_at (Profiles_of c2) n = tokens_at (Profiles_of c) n"
    "selected_flow c = ProfileUpdate \<longrightarrow> names (Profiles_of c2) = names (Profiles_of c)"
    by blast
  show "snd (snd (processProfiles env c ar)) =
           [EvConfigWrite (Profiles_of (fst (snd (processProfiles env c ar))))]"
    by (simp add: c2(1))
  show "fst (processProfiles env c ar) =
           map_option wrap_write
             (Config_Write env (Profiles_of (fst (snd (processProfiles env c ar)))))"
    by (simp add: c2(1))
  show "tokens_at (Profiles_of (fst (snd (processProfiles env c ar)))) (selected_name c)
           = Some (result_fields ar (time_Now_Unix env))"
    by (simp add: c2(1) c2(2))
  show "n \<noteq> selected_name c \<Longrightarrow>
           tokens_at (Profiles_of (fst (snd (processProfiles env c ar)))) n
             = tokens_at (Profiles_of c) n"
    using c2(3) by (simp add: c2(1))
  show "selected_flow c = ProfileUpdate \<Longrightarrow>
           names (Profiles_of (fst (snd (processProfiles env c ar)))) = names (Profiles_of c)"
    using c2(4) by (simp add: c2(1))
qed

lemma processProfiles_refused:
  assumes "selected_flow c = ProfileUpdate" "selected_name c \<notin> set (names (Profiles_of c))"
  shows "processProfiles env c ar =
           (Some (Errorf ''failed to update profile: %w'' []
                    (Some (RemediationError
                       (Errorf ''failed to update '%s' profile with new token data''
                          [selected_name c] None)
                       (RemediationText ''Run `fastly sso` to retry.'')))),
            snd (identifyProfileAndFlow c), [])"
proof -
  have "selected_name c \<notin> set (names (Profiles_of (snd (identifyProfileAndFlow c))))"
    using assms(2) by (simp add: identify_names)
  from processUpdate_missing [OF this]
  show ?thesis
    by (simp add: processProfiles_unfold assms(1) Let_def)
qed

lemma forget_SetADefault: "forget_Default (snd (profile_SetADefault ps)) = forget_Default ps"
  by (cases ps) (auto simp: forget_Default_def)

lemma identify_forget:
  "forget_Default (Profiles_of (snd (identifyProfileAndFlow c))) = forget_Default (Profiles_of c)"
  by (simp add: identify_Profiles forget_SetADefault)

lemma set_Profiles_same: "set_Profiles c (Profiles_of c) = c"
  by (simp add: set_Profiles_def Profiles_of_def)

lemma identify_unchanged:
  "Profiles_of c = [] \<or> profile_Default (Profiles_of c) \<noteq> [] \<Longrightarrow> snd (identifyProfileAndFlow c) = c"
  by (subst identify_frame) (auto simp: identify_Profiles set_Profiles_same)

lemma Exec_authorization_failed:
  assumes "reaches_callback env c" "authorization_failed (AuthServer_GetResult env)"
  shows "Exec env c =
           (Some (RemediationError
                    (Errorf ''failed to authorize: %w'' []
                       (Some (case Err (AuthServer_GetResult env) of
                                None \<Rightarrow> ErrorsNew ''no session token''
                              | Some e \<Rightarrow> e)))
                    AuthRemediation),
            (if prompting c then snd (identifyProfileAndFlow c) else c),
            (if prompting c then [EvPrompt (selected_name c)] else [])
              @ [EvInfo, EvDescription (fst (AuthServer_AuthURL env)),
                 EvOpener (fst (AuthServer_AuthURL env))])"
proof -
  obtain url where url: "AuthServer_AuthURL env = (url, None)"
    using assms(1) by (cases "AuthServer_AuthURL env") (auto simp: reaches_callback_def)
  obtain a b c1 where i: "identifyProfileAndFlow c = ((a, b), c1)"
    by (cases "identifyProfileAndFlow c") auto
  have E: "Exec env c =
     (let prompting = prompting c;
          ((profileName, flow), c1) =
            (if prompting then identifyProfileAndFlow c else (([], ProfileNone), c));
          ev1 = (if prompting then [EvPrompt profileName] else [])
      in if prompting \<and> snd (AskYesNo env) \<noteq> None then (snd (AskYesNo env), c1, ev1)
         else if prompting \<and> \<not> fst (AskYesNo env)
           then (Some (SkipExitError True ErrDontContinue), c1, ev1)
         else (case serverErr env of
                 Some e \<Rightarrow> (Some e, c1, ev1)
               | None \<Rightarrow>
                   (case AuthServer_AuthURL env of
                      (authorizationURL, Some e) \<Rightarrow>
                        (Some (RemediationError
                           (Errorf ''failed to generate an authorization URL: %w'' [] (Some e))
                           AuthRemediation), c1, ev1 @ [EvInfo])
                    | (authorizationURL, None) \<Rightarrow>
                        (case Opener env authorizationURL of
                           Some e \<Rightarrow>
                             (Some (Errorf ''failed to open your default browser: %w'' [] (Some e)), c1,
                              ev1 @ [EvInfo, EvDescription authorizationURL, EvOpener authorizationURL])
                         | None \<Rightarrow>
                             (let ev2 = ev1 @ [EvInfo, EvDescription authorizationURL,
                                               EvOpener authorizationURL];
                                  ar = AuthServer_GetResult env
                              in if Err ar \<noteq> None \<or> SessionToken ar = []
                                 then (Some (RemediationError
                                         (Errorf ''failed to authorize: %w'' []
                                            (Some (case Err ar of
                                                     None \<Rightarrow> ErrorsNew ''no session token''
                                                   | Some e \<Rightarrow> e)))
                                         AuthRemediation), c1, ev2)
                                 else (case processProfiles env c1 ar of
                                         (Some err, c2, ev3) \<Rightarrow>
                                           (Some (Errorf ''failed to process profile data: %w'' []
                                                    (Some err)), c2,
                                            ev2 @ ev3 @ [EvErrLogAdd err])
                                       | (None, c2, ev3) \<Rightarrow>
                                           (None, c2,
                                            ev2 @ ev3 @ [EvSessionToken
                                              (InvokedFromProfileCreate c
                                                 \<or> InvokedFromProfileUpdate c)
                                              (SessionToken ar)])))))))"
    unfolding Exec_def prompting_def by (rule refl)
  have s: "serverErr env = None" and o: "Opener env url = None"
    using assms(1) by (simp_all add: reaches_callback_def url)
  show ?thesis
  proof (cases "prompting c")
    case True
    then have a: "AskYesNo env = (True, None)"
      using assms(1) by (simp add: reaches_callback_def)
    show ?thesis
      unfolding E Let_def using assms(2)
      by (cases "Err (AuthServer_GetResult env)")
         (simp_all add: True a s o url i selected_name_def authorization_failed_def)
  next
    case False
    show ?thesis
      unfolding E Let_def using assms(2)
      by (cases "Err (AuthServer_GetResult env)")
         (simp_all add: False s o url authorization_failed_def)
  qed
qed

lemma processProfiles_state:
  "fst (snd (processProfiles env c ar)) =
     (case selected_flow c of
        ProfileCreate \<Rightarrow>
          processCreateProfile (snd (identifyProfileAndFlow c)) ar (selected_name c) (time_Now_Unix env)
      | ProfileUpdate \<Rightarrow>
          snd (processUpdateProfile (snd (identifyProfileAndFlow c)) ar (selected_name c)
                 (time_Now_Unix env))
      | ProfileNone \<Rightarrow> snd (identifyProfileAndFlow c))"
proof (cases "selected_flow c")
  case ProfileNone
  then show ?thesis using selected_flow_cases [of c] by simp
next
  case ProfileCreate
  then show ?thesis
    by (cases "Config_Write env (Profiles_of (processCreateProfile (snd (identifyProfileAndFlow c))
                  ar (selected_name c) (time_Now_Unix env)))")
       (simp_all add: processProfiles_unfold Let_def)
next
  case ProfileUpdate
  obtain e c2 where r: "processUpdateProfile (snd (identifyProfileAndFlow c)) ar (selected_name c)
                 (time_Now_Unix env) = (e, c2)"
    by (cases "processUpdateProfile (snd (identifyProfileAndFlow c)) ar (selected_name c)
                 (time_Now_Unix env)") auto
  show ?thesis
    by (cases e; cases "Config_Write env (Profiles_of c2)")
       (simp_all add: processProfiles_unfold Let_def ProfileUpdate r)
qed

lemma identify_flags:
  "InvokedFromProfileUpdate (snd (identifyProfileAndFlow c)) = InvokedFromProfileUpdate c"
  "InvokedFromProfileCreate (snd (identifyProfileAndFlow c)) = InvokedFromProfileCreate c"
  "ProfileDefault (snd (identifyProfileAndFlow c)) = ProfileDefault c"
  by (subst identify_frame, simp add: set_Profiles_def)+

lemma Default_processUpdate:
  assumes "m \<in> set (names (Profiles_of c))"
  shows "Default_at (Profiles_of (snd (processUpdateProfile c ar m now))) m =
           (if InvokedFromProfileUpdate c then Some (ProfileDefault c)
            else Default_at (Profiles_of c) m)"
proof -
  from assms obtain p where p: "map_of (Profiles_of c) m = Some p"
    by (auto simp: in_names_iff)
  show ?thesis
    by (simp add: Default_at_def processUpdate_found(2) [OF p] p)
qed

lemma Default_processCreate:
  assumes "\<not> ProfileDefault c"
  shows "Default_at (Profiles_of (processCreateProfile c ar m now)) m
           = Some (\<not> InvokedFromProfileCreate c)"
  using assms
  by (simp add: processCreateProfile_def Default_at_def Profiles_of_set_Profiles
        createNewProfile_def update_conv')

subsection \<open>At most one default profile\<close>

text \<open>
  C1. The claim: from a mapping with at most one default profile, a successful
  \<open>processProfiles\<close> leaves at most one default profile. The update path does not keep
  it: called from \<open>profile update\<close> with the make-default flag for profile "b" while "a"
  is the default, \<open>processProfiles\<close> succeeds and both "a" and "b" are default. The
  create path calls \<open>SetDefault\<close> to reset the other profiles; the update path has no
  such call.
\<close>

theorem processProfiles_update_leaves_two_defaults:
  "default_count [(''a'', stored_profile True), (''b'', stored_profile False)] = 1 \<and>
   fst (processProfiles (calm_env fresh_ar)
          ((sso_cmd [(''a'', stored_profile True), (''b'', stored_profile False)])
             \<lparr>ProfileDefault := True, InvokedFromProfileUpdate := True,
              ProfileUpdateName := ''b''\<rparr>)
          fresh_ar) = None \<and>
   default_count (Profiles_of (fst (snd (processProfiles (calm_env fresh_ar)
          ((sso_cmd [(''a'', stored_profile True), (''b'', stored_profile False)])
             \<lparr>ProfileDefault := True, InvokedFromProfileUpdate := True,
              ProfileUpdateName := ''b''\<rparr>)
          fresh_ar)))) = 2"
  by (simp add: fixture_defs sso_defs default_count_def)

subsection \<open>Which profile is selected\<close>

text \<open>
  C2, as stated, fails: with one stored profile "a" that is not the default and nothing
  named anywhere, the precedence of the specification yields the literal "default", while
  \<open>identifyProfileAndFlow\<close> makes "a" the default and selects it.
\<close>

theorem identifyProfileAndFlow_not_spec_precedence:
  "fst (fst (identifyProfileAndFlow (sso_cmd [(''a'', stored_profile False)]))) = ''a'' \<and>
   spec_profile_name [] [] [] [(''a'', stored_profile False)] = ''default''"
  by (simp add: fixture_defs sso_defs spec_profile_name_def)

text \<open>
  C2, amended: the selected name is the first non-empty one of: the \<open>--profile\<close> flag, the
  manifest profile, the positional argument, the name given by \<open>profile create\<close>, the
  name given by \<open>profile update\<close>, the existing default profile, the profile that
  \<open>SetADefault\<close> makes the default when profiles exist and none is, the literal
  "default".
\<close>

theorem identifyProfileAndFlow_precedence:
  "fst (fst (identifyProfileAndFlow c)) = code_profile_name c"
  by (cases "Profiles_of c")
     (auto simp: identifyProfileAndFlow_def code_profile_name_def Let_def split: prod.splits)

subsection \<open>A profile named explicitly\<close>

text \<open>
  C3, as stated, fails: with the positional argument "x" and no profile of that name,
  \<open>processProfiles\<close> returns an error, creates no profile "x" and writes nothing.
\<close>

theorem processProfiles_explicit_missing_not_created:
  "fst (processProfiles (calm_env fresh_ar) ((sso_cmd [])\<lparr>profile := ''x''\<rparr>) fresh_ar) =
     Some (Errorf ''failed to update profile: %w'' []
             (Some (RemediationError
                      (Errorf ''failed to update '%s' profile with new token data'' [''x''] None)
                      (RemediationText ''Run `fastly sso` to retry.'')))) \<and>
   Profiles_of (fst (snd (processProfiles (calm_env fresh_ar) ((sso_cmd [])\<lparr>profile := ''x''\<rparr>)
                            fresh_ar))) = [] \<and>
   snd (snd (processProfiles (calm_env fresh_ar) ((sso_cmd [])\<lparr>profile := ''x''\<rparr>) fresh_ar)) = []"
  by (simp add: fixture_defs sso_defs)

text \<open>
  C3, amended: for a profile name given by flag, manifest or positional argument, if a
  profile of that name exists \<open>processProfiles\<close> updates it in place (its token fields are
  those of the authorization result, no profile is added or removed, and the mapping is
  handed to the configuration file); if none exists \<open>processProfiles\<close> returns the error
  "failed to update profile", adds no profile and writes nothing.
\<close>

theorem processProfiles_explicit_name:
  assumes "explicit_name c \<noteq> []"
    and "processProfiles env c ar = (err, c', ev)"
  shows "if explicit_name c \<in> set (names (Profiles_of c))
         then tokens_at (Profiles_of c') (explicit_name c)
                = Some (result_fields ar (time_Now_Unix env))
              \<and> names (Profiles_of c') = names (Profiles_of c)
              \<and> ev = [EvConfigWrite (Profiles_of c')]
              \<and> err = map_option wrap_write (Config_Write env (Profiles_of c'))
         else err = Some (Errorf ''failed to update profile: %w'' []
                      (Some (RemediationError
                         (Errorf ''failed to update '%s' profile with new token data''
                            [explicit_name c] None)
                         (RemediationText ''Run `fastly sso` to retry.''))))
              \<and> names (Profiles_of c') = names (Profiles_of c)
              \<and> ev = []"
proof -
  have sel: "selected_name c = explicit_name c" "selected_flow c = ProfileUpdate"
    using identify_explicit [OF assms(1)] by (simp_all add: selected_name_def selected_flow_def)
  have r: "err = fst (processProfiles env c ar)" "c' = fst (snd (processProfiles env c ar))"
    "ev = snd (snd (processProfiles env c ar))"
    by (simp_all add: assms(2))
  show ?thesis
  proof (cases "explicit_name c \<in> set (names (Profiles_of c))")
    case True
    then have ok: "selected_flow c = ProfileCreate \<or> selected_name c \<in> set (names (Profiles_of c))"
      by (simp add: sel)
    show ?thesis
      using True processProfiles_reconciled(1,2,3) [OF ok, of env ar]
        processProfiles_reconciled(5) [OF ok sel(2), of env ar]
      by (simp add: r sel)
  next
    case False
    then have "selected_name c \<notin> set (names (Profiles_of c))"
      by (simp add: sel)
    from processProfiles_refused [OF sel(2) this, of env ar] False
    show ?thesis
      by (simp add: r sel identify_names)
  qed
qed

theorem processProfiles_explicit_name_witness:
  "explicit_name ((sso_cmd [(''a'', stored_profile True)])\<lparr>profile := ''a''\<rparr>) \<noteq> [] \<and>
   tokens_at (Profiles_of (fst (snd (processProfiles (calm_env fresh_ar)
                ((sso_cmd [(''a'', stored_profile True)])\<lparr>profile := ''a''\<rparr>) fresh_ar)))) ''a''
     = Some (result_fields fresh_ar 100) \<and>
   explicit_name ((sso_cmd [(''a'', stored_profile True)])\<lparr>profile := ''x''\<rparr>) \<noteq> [] \<and>
   snd (snd (processProfiles (calm_env fresh_ar)
                ((sso_cmd [(''a'', stored_profile True)])\<lparr>profile := ''x''\<rparr>) fresh_ar)) = []"
proof -
  let ?ca = "(sso_cmd [(''a'', stored_profile True)])\<lparr>profile := ''a''\<rparr>"
  let ?cx = "(sso_cmd [(''a'', stored_profile True)])\<lparr>profile := ''x''\<rparr>"
  have a: "explicit_name ?ca = ''a''" and x: "explicit_name ?cx = ''x''"
    by (simp_all add: explicit_name_def sso_cmd_def)
  have na: "names (Profiles_of ?ca) = [''a'']" and nx: "names (Profiles_of ?cx) = [''a'']"
    by (simp_all add: names_def Profiles_of_def sso_cmd_def)
  have env: "time_Now_Unix (calm_env fresh_ar) = 100"
    by (simp add: calm_env_def)
  show ?thesis
    using processProfiles_explicit_name [of ?ca "calm_env fresh_ar" fresh_ar
        "fst (processProfiles (calm_env fresh_ar) ?ca fresh_ar)"
        "fst (snd (processProfiles (calm_env fresh_ar) ?ca fresh_ar))"
        "snd (snd (processProfiles (calm_env fresh_ar) ?ca fresh_ar))"]
      processProfiles_explicit_name [of ?cx "calm_env fresh_ar" fresh_ar
        "fst (processProfiles (calm_env fresh_ar) ?cx fresh_ar)"
        "fst (snd (processProfiles (calm_env fresh_ar) ?cx fresh_ar))"
        "snd (snd (processProfiles (calm_env fresh_ar) ?cx fresh_ar))"]
    by (simp add: a x na nx env)
qed

subsection \<open>No profile exists\<close>

text \<open>
  C4, as stated, fails: with an empty mapping and no name given anywhere, a command that
  was invoked from \<open>profile create\<close> without the make-default flag creates the profile
  "default" with its default flag off.
\<close>

theorem processProfiles_no_profiles_not_default:
  "names (Profiles_of (fst (snd (processProfiles (calm_env fresh_ar)
            ((sso_cmd [])\<lparr>InvokedFromProfileCreate := True\<rparr>) fresh_ar)))) = [''default''] \<and>
   default_count (Profiles_of (fst (snd (processProfiles (calm_env fresh_ar)
            ((sso_cmd [])\<lparr>InvokedFromProfileCreate := True\<rparr>) fresh_ar)))) = 0"
  by (simp add: fixture_defs sso_defs names_def default_count_def)

text \<open>
  C4, amended: when the mapping is empty, no name is given by flag, manifest or positional
  argument, and the command is not invoked from \<open>profile create\<close> or \<open>profile update\<close>
  (the three fields those subcommands set are off), \<open>processProfiles\<close> leaves exactly one
  profile, named "default", marked default and holding the tokens of the authorization
  result, and hands that mapping to the configuration file.
\<close>

theorem processProfiles_no_profiles:
  assumes "Profiles_of c = []" and "explicit_name c = []"
    and "\<not> InvokedFromProfileCreate c" and "\<not> InvokedFromProfileUpdate c"
    and "\<not> ProfileDefault c"
  shows "Profiles_of (fst (snd (processProfiles env c ar))) =
           [(''default'',
             \<lparr>AccessToken = Jwt_AccessToken (Jwt ar),
              AccessTokenCreated = time_Now_Unix env,
              AccessTokenTTL = Jwt_ExpiresIn (Jwt ar),
              Default = True,
              Email = ar_Email ar,
              RefreshToken = Jwt_RefreshToken (Jwt ar),
              RefreshTokenCreated = time_Now_Unix env,
              RefreshTokenTTL = Jwt_RefreshExpiresIn (Jwt ar),
              Token = SessionToken ar\<rparr>)]
         \<and> snd (snd (processProfiles env c ar)) =
             [EvConfigWrite (Profiles_of (fst (snd (processProfiles env c ar))))]
         \<and> fst (processProfiles env c ar) =
             map_option wrap_write
               (Config_Write env (Profiles_of (fst (snd (processProfiles env c ar)))))"
proof -
  have e: "Flags_Profile (Globals c) = []" "Manifest_File_Profile (Globals c) = []" "profile c = []"
    using assms(2) by (auto simp: explicit_name_def split: if_splits)
  have i: "identifyProfileAndFlow c = ((DefaultName, ProfileCreate), c)"
    using assms e by (simp add: identifyProfileAndFlow_def)
  have sel: "selected_name c = DefaultName" "selected_flow c = ProfileCreate"
    by (simp_all add: selected_name_def selected_flow_def i)
  have ok: "selected_flow c = ProfileCreate \<or> selected_name c \<in> set (names (Profiles_of c))"
    by (simp add: sel)
  have "Profiles_of (fst (snd (processProfiles env c ar))) =
          Profiles_of (processCreateProfile c ar DefaultName (time_Now_Unix env))"
    by (cases "Config_Write env (Profiles_of (processCreateProfile c ar DefaultName (time_Now_Unix env)))")
       (simp_all add: processProfiles_def i)
  also have "\<dots> = [(''default'',
             \<lparr>AccessToken = Jwt_AccessToken (Jwt ar),
              AccessTokenCreated = time_Now_Unix env,
              AccessTokenTTL = Jwt_ExpiresIn (Jwt ar),
              Default = True,
              Email = ar_Email ar,
              RefreshToken = Jwt_RefreshToken (Jwt ar),
              RefreshTokenCreated = time_Now_Unix env,
              RefreshTokenTTL = Jwt_RefreshExpiresIn (Jwt ar),
              Token = SessionToken ar\<rparr>)]"
    using assms
    by (simp add: processCreateProfile_def createNewProfile_def Profiles_of_set_Profiles
          DefaultName_def)
  finally show ?thesis
    using processProfiles_reconciled(1,2) [OF ok, of env ar] by simp
qed

theorem processProfiles_no_profiles_witness:
  "Profiles_of (sso_cmd []) = [] \<and> explicit_name (sso_cmd []) = [] \<and>
   \<not> InvokedFromProfileCreate (sso_cmd []) \<and> \<not> InvokedFromProfileUpdate (sso_cmd []) \<and>
   \<not> ProfileDefault (sso_cmd []) \<and>
   names (Profiles_of (fst (snd (processProfiles (calm_env fresh_ar) (sso_cmd []) fresh_ar))))
     = [''default''] \<and>
   default_count (Profiles_of (fst (snd (processProfiles (calm_env fresh_ar) (sso_cmd []) fresh_ar))))
     = 1"
proof -
  have h: "Profiles_of (sso_cmd []) = []" "explicit_name (sso_cmd []) = []"
    "\<not> InvokedFromProfileCreate (sso_cmd [])" "\<not> InvokedFromProfileUpdate (sso_cmd [])"
    "\<not> ProfileDefault (sso_cmd [])"
    by (simp_all add: sso_cmd_def Profiles_of_def explicit_name_def)
  show ?thesis
    using h processProfiles_no_profiles [OF h, of "calm_env fresh_ar" fresh_ar]
    by (simp add: names_def default_count_def)
qed

subsection \<open>The fields written\<close>

text \<open>
  C5, as stated, fails: the token fields are not exactly what is written, and not all of
  them come from the authorization result. Invoked from \<open>profile update\<close> without the
  make-default flag for the stored default profile "a", \<open>processProfiles\<close> succeeds, turns
  the \<open>Default\<close> flag of "a" from true to false, and sets both creation times to 100, the
  reading of the clock; the integers of the authorization result are 10 and 20.
\<close>

theorem processProfiles_also_writes_Default:
  "fst (processProfiles (calm_env fresh_ar)
          ((sso_cmd [(''a'', stored_profile True)])
             \<lparr>InvokedFromProfileUpdate := True, ProfileUpdateName := ''a''\<rparr>) fresh_ar) = None \<and>
   map_of (Profiles_of ((sso_cmd [(''a'', stored_profile True)])
             \<lparr>InvokedFromProfileUpdate := True, ProfileUpdateName := ''a''\<rparr>)) ''a''
     = Some \<lparr>AccessToken = ''old-access'', AccessTokenCreated = 1, AccessTokenTTL = 2,
             Default = True, Email = ''old@example.com'', RefreshToken = ''old-refresh'',
             RefreshTokenCreated = 3, RefreshTokenTTL = 4, Token = ''old-session''\<rparr> \<and>
   map_of (Profiles_of (fst (snd (processProfiles (calm_env fresh_ar)
          ((sso_cmd [(''a'', stored_profile True)])
             \<lparr>InvokedFromProfileUpdate := True, ProfileUpdateName := ''a''\<rparr>) fresh_ar)))) ''a''
     = Some \<lparr>AccessToken = ''new-access'', AccessTokenCreated = 100, AccessTokenTTL = 10,
             Default = False, Email = ''new@example.com'', RefreshToken = ''new-refresh'',
             RefreshTokenCreated = 100, RefreshTokenTTL = 20, Token = ''new-session''\<rparr> \<and>
   time_Now_Unix (calm_env fresh_ar) = 100 \<and>
   Jwt_ExpiresIn (Jwt fresh_ar) = 10 \<and> Jwt_RefreshExpiresIn (Jwt fresh_ar) = 20"
  by (simp add: fixture_defs sso_defs Let_def)

text \<open>
  C5, amended: when the selected profile exists or is created, \<open>processProfiles\<close> writes
  into its record the access token, access-token TTL, refresh token, refresh-token TTL,
  email and session token of the authorization result, and the reading of the clock as both
  creation times; the token fields under every other name are unchanged. The \<open>Default\<close>
  flag of the record is written as well: in the update flow it becomes \<open>ProfileDefault\<close>
  when invoked from \<open>profile update\<close> and otherwise stays as \<open>identifyProfileAndFlow\<close>
  left it; in the create flow without the make-default flag it is true unless invoked from
  \<open>profile create\<close>. When the update flow selects a name that has no profile, an error is
  returned and nothing is written.
\<close>

theorem processProfiles_writes_fields:
  "if selected_flow c = ProfileUpdate \<and> selected_name c \<notin> set (names (Profiles_of c))
   then fst (processProfiles env c ar) \<noteq> None
        \<and> snd (snd (processProfiles env c ar)) = []
        \<and> Profiles_of (fst (snd (processProfiles env c ar)))
            = Profiles_of (snd (identifyProfileAndFlow c))
        \<and> (\<forall>n. tokens_at (Profiles_of (fst (snd (processProfiles env c ar)))) n
                  = tokens_at (Profiles_of c) n)
   else tokens_at (Profiles_of (fst (snd (processProfiles env c ar)))) (selected_name c)
           = Some (Jwt_AccessToken (Jwt ar), time_Now_Unix env, Jwt_ExpiresIn (Jwt ar),
                   Jwt_RefreshToken (Jwt ar), time_Now_Unix env, Jwt_RefreshExpiresIn (Jwt ar),
                   ar_Email ar, SessionToken ar)
        \<and> (\<forall>n. n \<noteq> selected_name c \<longrightarrow>
                tokens_at (Profiles_of (fst (snd (processProfiles env c ar)))) n
                  = tokens_at (Profiles_of c) n)
        \<and> (selected_flow c = ProfileUpdate \<longrightarrow>
              Default_at (Profiles_of (fst (snd (processProfiles env c ar)))) (selected_name c)
                = (if InvokedFromProfileUpdate c then Some (ProfileDefault c)
                   else Default_at (Profiles_of (snd (identifyProfileAndFlow c))) (selected_name c)))
        \<and> (selected_flow c = ProfileCreate \<and> \<not> ProfileDefault c \<longrightarrow>
              Default_at (Profiles_of (fst (snd (processProfiles env c ar)))) (selected_name c)
                = Some (\<not> InvokedFromProfileCreate c))"
proof (cases "selected_flow c = ProfileUpdate \<and> selected_name c \<notin> set (names (Profiles_of c))")
  case True
  then have u: "selected_flow c = ProfileUpdate"
    and m: "selected_name c \<notin> set (names (Profiles_of c))" by simp_all
  show ?thesis
    using True by (simp add: processProfiles_refused [OF u m] identify_tokens)
next
  case False
  then have ok: "selected_flow c = ProfileCreate \<or> selected_name c \<in> set (names (Profiles_of c))"
    using selected_flow_cases [of c] by auto
  have upd: "selected_flow c = ProfileUpdate \<Longrightarrow>
      Default_at (Profiles_of (fst (snd (processProfiles env c ar)))) (selected_name c)
        = (if InvokedFromProfileUpdate c then Some (ProfileDefault c)
           else Default_at (Profiles_of (snd (identifyProfileAndFlow c))) (selected_name c))"
  proof -
    assume u: "selected_flow c = ProfileUpdate"
    with ok have "selected_name c \<in> set (names (Profiles_of (snd (identifyProfileAndFlow c))))"
      by (simp add: identify_names)
    from Default_processUpdate [OF this] show ?thesis
      by (simp add: processProfiles_state u identify_flags)
  qed
  have cre: "selected_flow c = ProfileCreate \<Longrightarrow> \<not> ProfileDefault c \<Longrightarrow>
      Default_at (Profiles_of (fst (snd (processProfiles env c ar)))) (selected_name c)
        = Some (\<not> InvokedFromProfileCreate c)"
  proof -
    assume k: "selected_flow c = ProfileCreate" and d: "\<not> ProfileDefault c"
    then have "\<not> ProfileDefault (snd (identifyProfileAndFlow c))"
      by (simp add: identify_flags)
    from Default_processCreate [OF this] show ?thesis
      by (simp add: processProfiles_state k identify_flags)
  qed
  show ?thesis
    by (subst if_not_P [OF False])
       (use processProfiles_reconciled(3) [OF ok, of env ar]
          processProfiles_reconciled(4) [OF ok, where env = env and ar = ar] upd cre
        in \<open>simp add: result_fields_def\<close>)
qed

theorem processProfiles_writes_fields_witness:
  "tokens_at (Profiles_of (fst (snd (processProfiles (calm_env fresh_ar)
         (sso_cmd [(''a'', stored_profile True), (''b'', stored_profile False)]) fresh_ar)))) ''a''
       = Some (''new-access'', 100, 10, ''new-refresh'', 100, 20, ''new@example.com'', ''new-session'')
   \<and> tokens_at (Profiles_of (fst (snd (processProfiles (calm_env fresh_ar)
         (sso_cmd [(''a'', stored_profile True), (''b'', stored_profile False)]) fresh_ar)))) ''b''
       = Some (''old-access'', 1, 2, ''old-refresh'', 3, 4, ''old@example.com'', ''old-session'')
   \<and> Default_at (Profiles_of (fst (snd (processProfiles (calm_env fresh_ar)
         (sso_cmd [(''a'', stored_profile True), (''b'', stored_profile False)]) fresh_ar)))) ''a''
       = Some True
   \<and> Default_at (Profiles_of (fst (snd (processProfiles (calm_env fresh_ar)
         (sso_cmd []) fresh_ar)))) ''default'' = Some True
   \<and> snd (snd (processProfiles (calm_env fresh_ar) ((sso_cmd [])\<lparr>profile := ''x''\<rparr>) fresh_ar)) = []"
proof -
  let ?c = "sso_cmd [(''a'', stored_profile True), (''b'', stored_profile False)]"
  let ?e = "sso_cmd []"
  let ?x = "(sso_cmd [])\<lparr>profile := ''x''\<rparr>"
  have i: "identifyProfileAndFlow ?c = ((''a'', ProfileUpdate), ?c)"
    "identifyProfileAndFlow ?e = ((''default'', ProfileCreate), ?e)"
    "identifyProfileAndFlow ?x = ((''x'', ProfileUpdate), ?x)"
    by (simp_all add: identifyProfileAndFlow_def sso_cmd_def Profiles_of_def stored_profile_def
          Let_def DefaultName_def)
  have sel: "selected_name ?c = ''a''" "selected_flow ?c = ProfileUpdate"
    "selected_name ?e = ''default''" "selected_flow ?e = ProfileCreate"
    "selected_name ?x = ''x''" "selected_flow ?x = ProfileUpdate"
    by (simp_all add: selected_name_def selected_flow_def i)
  have n: "names (Profiles_of ?c) = [''a'', ''b'']" "names (Profiles_of ?x) = []"
    by (simp_all add: names_def Profiles_of_def sso_cmd_def)
  have f: "\<not> InvokedFromProfileUpdate ?c" "\<not> ProfileDefault ?e" "\<not> InvokedFromProfileCreate ?e"
    by (simp_all add: sso_cmd_def)
  have b: "tokens_at (Profiles_of ?c) ''b''
       = Some (''old-access'', 1, 2, ''old-refresh'', 3, 4, ''old@example.com'', ''old-session'')"
    "Default_at (Profiles_of ?c) ''a'' = Some True"
    by (simp_all add: tokens_at_def token_fields_def Default_at_def Profiles_of_def sso_cmd_def
          stored_profile_def)
  show ?thesis
    using processProfiles_writes_fields [of ?c "calm_env fresh_ar" fresh_ar]
      processProfiles_writes_fields [of ?e "calm_env fresh_ar" fresh_ar]
      processProfiles_writes_fields [of ?x "calm_env fresh_ar" fresh_ar]
    by (simp add: sel n f b i) (simp add: calm_env_def fresh_ar_def)
qed

subsection \<open>Writing the configuration file\<close>

text \<open>
  C7. After reconciliation has gone through, \<open>processProfiles\<close> hands the whole resulting
  mapping to \<open>Config.Write\<close>, once; when that write fails, \<open>processProfiles\<close> returns an
  error (the write's error, wrapped), and it returns nil only when the write succeeded.
\<close>

theorem processProfiles_writes_config:
  assumes "selected_flow c = ProfileCreate \<or> selected_name c \<in> set (names (Profiles_of c))"
  shows "config_writes (snd (snd (processProfiles env c ar)))
           = [Profiles_of (fst (snd (processProfiles env c ar)))]
         \<and> (\<forall>e. Config_Write env (Profiles_of (fst (snd (processProfiles env c ar)))) = Some e
                \<longrightarrow> fst (processProfiles env c ar)
                      = Some (Errorf ''failed to update config file: %w'' [] (Some e)))
         \<and> (fst (processProfiles env c ar) = None
                \<longrightarrow> Config_Write env (Profiles_of (fst (snd (processProfiles env c ar)))) = None)"
  using processProfiles_reconciled(1,2) [OF assms, of env ar]
  by (auto simp: config_writes_def wrap_write_def)

theorem processProfiles_writes_config_witness:
  "(selected_flow (sso_cmd []) = ProfileCreate
      \<or> selected_name (sso_cmd []) \<in> set (names (Profiles_of (sso_cmd []))))
   \<and> Config_Write ((calm_env fresh_ar)\<lparr>Config_Write := (\<lambda>ps. Some (ExternalError ''disk full''))\<rparr>)
        (Profiles_of (fst (snd (processProfiles
           ((calm_env fresh_ar)\<lparr>Config_Write := (\<lambda>ps. Some (ExternalError ''disk full''))\<rparr>)
           (sso_cmd []) fresh_ar)))) = Some (ExternalError ''disk full'')
   \<and> fst (processProfiles
           ((calm_env fresh_ar)\<lparr>Config_Write := (\<lambda>ps. Some (ExternalError ''disk full''))\<rparr>)
           (sso_cmd []) fresh_ar)
       = Some (Errorf ''failed to update config file: %w'' [] (Some (ExternalError ''disk full'')))"
proof -
  have ok: "selected_flow (sso_cmd []) = ProfileCreate
      \<or> selected_name (sso_cmd []) \<in> set (names (Profiles_of (sso_cmd [])))"
    by (simp add: selected_flow_def identifyProfileAndFlow_def sso_cmd_def Profiles_of_def)
  show ?thesis
    using ok processProfiles_writes_config [OF ok,
        of "(calm_env fresh_ar)\<lparr>Config_Write := (\<lambda>ps. Some (ExternalError ''disk full''))\<rparr>" fresh_ar]
    by simp
qed

subsection \<open>The default flag in the update flow\<close>

text \<open>
  C9. When the command is not invoked from \<open>profile update\<close>, \<open>processUpdateProfile\<close> on an
  existing profile succeeds and leaves that profile's \<open>Default\<close> flag as it was: the new
  record is the old one with only the eight token fields replaced.
\<close>

theorem processUpdateProfile_keeps_Default:
  assumes "\<not> InvokedFromProfileUpdate c"
    and "map_of (Profiles_of c) profileName = Some p"
  shows "fst (processUpdateProfile c ar profileName now) = None
         \<and> map_of (Profiles_of (snd (processUpdateProfile c ar profileName now))) profileName
             = Some (p\<lparr>AccessToken := Jwt_AccessToken (Jwt ar),
                      AccessTokenCreated := now,
                      AccessTokenTTL := Jwt_ExpiresIn (Jwt ar),
                      Email := ar_Email ar,
                      RefreshToken := Jwt_RefreshToken (Jwt ar),
                      RefreshTokenCreated := now,
                      RefreshTokenTTL := Jwt_RefreshExpiresIn (Jwt ar),
                      Token := SessionToken ar\<rparr>)
         \<and> map_option Default
             (map_of (Profiles_of (snd (processUpdateProfile c ar profileName now))) profileName)
             = Some (Default p)"
  using assms(1) processUpdate_found(1,2) [OF assms(2), of ar now]
  by simp

theorem processUpdateProfile_keeps_Default_witness:
  "\<not> InvokedFromProfileUpdate (sso_cmd [(''a'', stored_profile True), (''b'', stored_profile False)])
   \<and> map_of (Profiles_of (sso_cmd [(''a'', stored_profile True), (''b'', stored_profile False)])) ''a''
       = Some (stored_profile True)
   \<and> map_option Default
       (map_of (Profiles_of (snd (processUpdateProfile
          (sso_cmd [(''a'', stored_profile True), (''b'', stored_profile False)]) fresh_ar ''a'' 100)))
          ''a'') = Some True"
proof -
  let ?c = "sso_cmd [(''a'', stored_profile True), (''b'', stored_profile False)]"
  have h: "\<not> InvokedFromProfileUpdate ?c" "map_of (Profiles_of ?c) ''a'' = Some (stored_profile True)"
    by (simp_all add: sso_cmd_def Profiles_of_def)
  show ?thesis
    using h processUpdateProfile_keeps_Default [OF h, of fresh_ar 100]
    by (simp add: stored_profile_def)
qed

subsection \<open>A failed authorization\<close>

text \<open>
  C6, as stated, fails: with one stored profile "a" that is not the default, the prompt
  shown and answered yes, and a callback result without a session token, \<open>Exec\<close> returns
  the remediation error, yet profile "a" has become the default in the in-memory
  configuration: the prompt obtains the profile name from \<open>identifyProfileAndFlow\<close>, which
  appoints a default when none exists.
\<close>

theorem Exec_failed_authorization_sets_default:
  "fst (Exec (calm_env (fresh_ar\<lparr>SessionToken := []\<rparr>)) (sso_cmd [(''a'', stored_profile False)]))
     = Some (RemediationError
              (Errorf ''failed to authorize: %w'' [] (Some (ErrorsNew ''no session token'')))
              AuthRemediation) \<and>
   Profiles_of (sso_cmd [(''a'', stored_profile False)]) = [(''a'', stored_profile False)] \<and>
   Profiles_of (fst (snd (Exec (calm_env (fresh_ar\<lparr>SessionToken := []\<rparr>))
                            (sso_cmd [(''a'', stored_profile False)]))))
     = [(''a'', stored_profile True)]"
  by (simp add: Exec_def fixture_defs sso_defs)

text \<open>
  C6, amended: if the callback result carries an error or an empty session token, \<open>Exec\<close>
  returns a remediation error, nothing is handed to the configuration file, and the
  profiles are as before up to their default flags: no profile is created or removed and no
  token field changes. The command is left untouched altogether, except when the prompt is
  shown while profiles exist and none is the default; then the only change is the one made
  by \<open>SetADefault\<close>.
\<close>

theorem Exec_failed_authorization:
  assumes "reaches_callback env c" and "authorization_failed (AuthServer_GetResult env)"
  shows "fst (Exec env c) =
           Some (RemediationError
                    (Errorf ''failed to authorize: %w'' []
                       (Some (case Err (AuthServer_GetResult env) of
                                None \<Rightarrow> ErrorsNew ''no session token''
                              | Some e \<Rightarrow> e)))
                    AuthRemediation)
         \<and> config_writes (snd (snd (Exec env c))) = []
         \<and> forget_Default (Profiles_of (fst (snd (Exec env c)))) = forget_Default (Profiles_of c)
         \<and> (if prompting c \<and> Profiles_of c \<noteq> [] \<and> profile_Default (Profiles_of c) = []
            then fst (snd (Exec env c)) = set_Profiles c (snd (profile_SetADefault (Profiles_of c)))
            else fst (snd (Exec env c)) = c)"
  unfolding Exec_authorization_failed [OF assms]
  using identify_frame [of c] identify_unchanged [of c]
  by (auto simp: config_writes_def identify_forget identify_Profiles Profiles_of_set_Profiles
        forget_SetADefault)

theorem Exec_failed_authorization_witness:
  "reaches_callback (calm_env (fresh_ar\<lparr>Err := Some (ExternalError ''access denied'')\<rparr>))
     (sso_cmd [(''a'', stored_profile True)])
   \<and> authorization_failed (AuthServer_GetResult
        (calm_env (fresh_ar\<lparr>Err := Some (ExternalError ''access denied'')\<rparr>)))
   \<and> fst (Exec (calm_env (fresh_ar\<lparr>Err := Some (ExternalError ''access denied'')\<rparr>))
            (sso_cmd [(''a'', stored_profile True)]))
       = Some (RemediationError
                 (Errorf ''failed to authorize: %w'' [] (Some (ExternalError ''access denied'')))
                 AuthRemediation)
   \<and> fst (snd (Exec (calm_env (fresh_ar\<lparr>Err := Some (ExternalError ''access denied'')\<rparr>))
                 (sso_cmd [(''a'', stored_profile True)])))
       = sso_cmd [(''a'', stored_profile True)]"
proof -
  let ?env = "calm_env (fresh_ar\<lparr>Err := Some (ExternalError ''access denied'')\<rparr>)"
  let ?c = "sso_cmd [(''a'', stored_profile True)]"
  have h: "reaches_callback ?env ?c" "authorization_failed (AuthServer_GetResult ?env)"
    by (simp_all add: reaches_callback_def authorization_failed_def calm_env_def fresh_ar_def)
  have d: "profile_Default (Profiles_of ?c) = ''a''"
    by (simp add: Profiles_of_def sso_cmd_def stored_profile_def)
  have e: "Err (AuthServer_GetResult ?env) = Some (ExternalError ''access denied'')"
    by (simp add: calm_env_def)
  show ?thesis
    using h Exec_failed_authorization [OF h]
    by (simp add: d e)
qed

section \<open>Properties of the API commands\<close>

text \<open>
  C8. When verbose mode and JSON output are both enabled, each of the commands (the S3, GCS
  and Azure Blob logging list commands, condition list and describe, service describe, TLS
  activation describe, and resource link update, which has the same check) returns
  \<open>ErrInvalidVerboseJSONCombo\<close> with no event at all: the service is not resolved, the API
  client is not called, nothing is logged or printed.
\<close>

theorem Exec_rejects_verbose_json:
  assumes "Verbose env" and "JSONOutput_Enabled env"
  shows "s3_ListCommand_Exec env = (Some ErrInvalidVerboseJSONCombo, [])
         \<and> gcs_ListCommand_Exec env = (Some ErrInvalidVerboseJSONCombo, [])
         \<and> azureblob_ListCommand_Exec env = (Some ErrInvalidVerboseJSONCombo, [])
         \<and> condition_ListCommand_Exec env = (Some ErrInvalidVerboseJSONCombo, [])
         \<and> condition_DescribeCommand_Exec env name = (Some ErrInvalidVerboseJSONCombo, [])
         \<and> service_DescribeCommand_Exec env = (Some ErrInvalidVerboseJSONCombo, [])
         \<and> activation_DescribeCommand_Exec env id' include
             = (Some ErrInvalidVerboseJSONCombo, [])
         \<and> resourcelink_UpdateCommand_Exec env id' name
             = (Some ErrInvalidVerboseJSONCombo, [])"
  using assms
  by (simp add: s3_ListCommand_Exec_def gcs_ListCommand_Exec_def azureblob_ListCommand_Exec_def
        condition_ListCommand_Exec_def condition_DescribeCommand_Exec_def
        service_DescribeCommand_Exec_def activation_DescribeCommand_Exec_def
        resourcelink_UpdateCommand_Exec_def)

theorem Exec_rejects_verbose_json_witness:
  "Verbose (quiet_api\<lparr>Verbose := True, JSONOutput_Enabled := True\<rparr>)
   \<and> JSONOutput_Enabled (quiet_api\<lparr>Verbose := True, JSONOutput_Enabled := True\<rparr>)
   \<and> s3_ListCommand_Exec (quiet_api\<lparr>Verbose := True, JSONOutput_Enabled := True\<rparr>)
       = (Some ErrInvalidVerboseJSONCombo, [])
   \<and> service_DescribeCommand_Exec (quiet_api\<lparr>Verbose := True, JSONOutput_Enabled := True\<rparr>)
       = (Some ErrInvalidVerboseJSONCombo, [])"
proof -
  have h: "Verbose (quiet_api\<lparr>Verbose := True, JSONOutput_Enabled := True\<rparr>)"
    "JSONOutput_Enabled (quiet_api\<lparr>Verbose := True, JSONOutput_Enabled := True\<rparr>)"
    by simp_all
  show ?thesis
    using h Exec_rejects_verbose_json [OF h, of "[]" "[]" "[]"] by simp
qed

text \<open>
  C10, as stated, fails: with an undefined source and \<open>--service-name\<close> unset, \<open>Exec\<close>
  returns \<open>ErrInvalidVerboseJSONCombo\<close> when verbose mode and JSON output are both enabled,
  and the error of \<open>argparser.ServiceID\<close> when that call fails; in neither run is the result
  \<open>ErrNoServiceID\<close>.
\<close>

theorem service_describe_other_errors_first:
  "ServiceID (quiet_api\<lparr>Verbose := True, JSONOutput_Enabled := True\<rparr>)
     = ([], SourceUndefined, [], None) \<and>
   \<not> serviceName_WasSet (quiet_api\<lparr>Verbose := True, JSONOutput_Enabled := True\<rparr>) \<and>
   fst (service_DescribeCommand_Exec (quiet_api\<lparr>Verbose := True, JSONOutput_Enabled := True\<rparr>))
     = Some ErrInvalidVerboseJSONCombo \<and>
   ServiceID (quiet_api\<lparr>ServiceID := ([], SourceUndefined, [], Some (ExternalError ''lookup failed''))\<rparr>)
     = ([], SourceUndefined, [], Some (ExternalError ''lookup failed'')) \<and>
   \<not> serviceName_WasSet
       (quiet_api\<lparr>ServiceID := ([], SourceUndefined, [], Some (ExternalError ''lookup failed''))\<rparr>) \<and>
   fst (service_DescribeCommand_Exec
          (quiet_api\<lparr>ServiceID := ([], SourceUndefined, [], Some (ExternalError ''lookup failed''))\<rparr>))
     = Some (ExternalError ''lookup failed'')"
  by (simp add: service_DescribeCommand_Exec_def quiet_api_def)

text \<open>
  C10, amended: in service describe, when the source is undefined and \<open>--service-name\<close>
  was not set, \<open>Exec\<close> calls no method of the API client (in particular not
  \<open>GetServiceDetails\<close>) and returns \<open>ErrInvalidVerboseJSONCombo\<close> if verbose mode and JSON
  output are both enabled, else the error of \<open>argparser.ServiceID\<close> if it returned one, else
  \<open>ErrNoServiceID\<close>.
\<close>

theorem service_describe_without_service_id:
  assumes "fst (snd (ServiceID env)) = SourceUndefined"
    and "\<not> serviceName_WasSet env"
  shows "api_calls (snd (service_DescribeCommand_Exec env)) = []
         \<and> fst (service_DescribeCommand_Exec env) =
             (if Verbose env \<and> JSONOutput_Enabled env then Some ErrInvalidVerboseJSONCombo
              else case snd (snd (snd (ServiceID env))) of
                     Some err \<Rightarrow> Some err
                   | None \<Rightarrow> Some ErrNoServiceID)"
  using assms
  by (cases "ServiceID env" rule: prod_cases4; cases "snd (snd (snd (ServiceID env)))")
     (auto simp: service_DescribeCommand_Exec_def api_calls_def)

theorem service_describe_without_service_id_witness:
  "fst (snd (ServiceID quiet_api)) = SourceUndefined
   \<and> \<not> serviceName_WasSet quiet_api
   \<and> \<not> (Verbose quiet_api \<and> JSONOutput_Enabled quiet_api)
   \<and> service_DescribeCommand_Exec quiet_api
       = (Some ErrNoServiceID, [CallServiceID, ErrLogAdd ErrNoServiceID])
   \<and> api_calls (snd (service_DescribeCommand_Exec quiet_api)) = []"
proof -
  have h: "fst (snd (ServiceID quiet_api)) = SourceUndefined" "\<not> serviceName_WasSet quiet_api"
    by (simp_all add: quiet_api_def)
  show ?thesis
    using service_describe_without_service_id [OF h]
    by (simp add: service_DescribeCommand_Exec_def quiet_api_def)
qed


end
